theory Spec2Isabelle
  imports Complex_Main "HOL-Library.Multiset"
begin

section \<open>Numbers\<close>

text \<open>
  The numeric fields of an analysis result are JavaScript numbers that arrive through
  \<open>JSON.parse\<close>; a finite number is a real here. \<open>reportData\<close> and \<open>radarData\<close> below
  compute with exact sums and quotients, which is what the code computes when no operation
  rounds; what a division by the number of results can produce beyond a finite number is
  kept: \<open>0 / 0\<close> is \<open>NaN\<close>, \<open>x / 0\<close> is an infinity. The averages are given a second
  time with the rounding of binary64 after every operation (section on binary64 below).
\<close>

datatype jsnum = Finite real | NaN | PosInfinity | NegInfinity

definition js_div :: "real \<Rightarrow> nat \<Rightarrow> jsnum" where
  \<comment> \<open>\<open>x / n\<close> for a finite \<open>x\<close> and an array length \<open>n\<close>\<close>
  "js_div x n =
     (if n \<noteq> 0 then Finite (x / real n)
      else if x = 0 then NaN
      else if 0 < x then PosInfinity else NegInfinity)"

fun js_sub :: "jsnum \<Rightarrow> jsnum \<Rightarrow> jsnum" where
  "js_sub (Finite a) (Finite b) = Finite (a - b)"
| "js_sub NaN _ = NaN"
| "js_sub _ NaN = NaN"
| "js_sub PosInfinity PosInfinity = NaN"
| "js_sub NegInfinity NegInfinity = NaN"
| "js_sub PosInfinity _ = PosInfinity"
| "js_sub NegInfinity _ = NegInfinity"
| "js_sub (Finite a) PosInfinity = NegInfinity"
| "js_sub (Finite a) NegInfinity = PosInfinity"

fun js_positive :: "jsnum \<Rightarrow> bool" where
  \<comment> \<open>\<open>v > 0\<close>; a comparator result \<open>NaN\<close> counts as \<open>+0\<close> in \<open>Array.prototype.sort\<close>\<close>
  "js_positive (Finite r) = (0 < r)"
| "js_positive PosInfinity = True"
| "js_positive _ = False"

section \<open>Data model (types.ts)\<close>

text \<open>
  Field \<open>value\<close> of \<open>ColorData\<close> is \<open>cvalue\<close> here and field \<open>id\<close> of
  \<open>AnalysisResult\<close> is \<open>rid\<close>. A \<open>ColorData\<close> read from the remote service
  carries a real, one computed by the dashboard carries the result of a division.
\<close>

record 'n ColorData =
  name :: string
  cvalue :: 'n
  hex :: string

record MetricData =
  subject :: string
  A :: jsnum
  fullMark :: real

record ComparisonItem =
  dataset :: string
  similarity :: real
  styleMatch :: string

record AnalysisResult =
  rid :: string
  thumbnail :: string
  colorDistribution :: "real ColorData list"
  sharpness :: real
  complexity :: real
  saturation :: real
  styleFeatures :: "string list"
  clipSimilarity :: "ComparisonItem list"
  uniquenessScore :: real
  description :: string

record CollectionSummary =
  coreFeatures :: "string list"
  promptFormula :: string

text \<open>
  The three recommendation strings of the dashboard are fixed literals that do not depend
  on the results; they are named here rather than spelled out: keep the high-contrast line
  style, unify the saturation to the current mean, add more distinctive decoration.
\<close>

datatype recommendation = KeepContrastLines | UnifySaturation | AddDistinctiveDecoration

record GlobalReportData =
  avgSharpness :: jsnum
  avgComplexity :: jsnum
  avgUniqueness :: jsnum
  topStyles :: "string list"
  dominantColors :: "jsnum ColorData list"
  recommendations :: "recommendation list"
  summary :: "CollectionSummary option"

section \<open>The runtime: plain objects, sets, sort\<close>

subsection \<open>A plain object used as a dictionary\<close>

text \<open>
  \<open>colorMap\<close> is an object literal \<open>{}\<close> indexed by colour names. Its own
  properties are kept in creation order. Assigning to the key \<open>__proto__\<close> replaces the
  prototype (the assigned value is an object) and creates no own property; reading that key
  gives the prototype back. Every other key that is not an own property reads as a value
  without a \<open>val\<close> field.
\<close>

record ColorEntry =
  val :: real
  ehex :: string

record colorMap_obj =
  own :: "(string \<times> ColorEntry) list"
  proto :: "ColorEntry option"

definition empty_obj :: colorMap_obj where
  "empty_obj = \<lparr>own = [], proto = None\<rparr>"

definition obj_get :: "colorMap_obj \<Rightarrow> string \<Rightarrow> ColorEntry option" where
  "obj_get m k = (if k = ''__proto__'' then proto m else map_of (own m) k)"

fun own_put :: "(string \<times> ColorEntry) list \<Rightarrow> string \<Rightarrow> ColorEntry \<Rightarrow> (string \<times> ColorEntry) list" where
  "own_put [] k v = [(k, v)]"
| "own_put ((k', v') # kvs) k v = (if k' = k then (k, v) # kvs else (k', v') # own_put kvs k v)"

definition obj_set :: "colorMap_obj \<Rightarrow> string \<Rightarrow> ColorEntry \<Rightarrow> colorMap_obj" where
  "obj_set m k v =
     (if k = ''__proto__'' then m\<lparr>proto := Some v\<rparr> else m\<lparr>own := own_put (own m) k v\<rparr>)"

definition is_digit :: "char \<Rightarrow> bool" where
  "is_digit c = (48 \<le> (of_char c :: nat) \<and> (of_char c :: nat) \<le> 57)"

definition index_value :: "string \<Rightarrow> nat" where
  "index_value s = foldl (\<lambda>n c. 10 * n + ((of_char c :: nat) - 48)) 0 s"

definition is_array_index :: "string \<Rightarrow> bool" where
  \<comment> \<open>a canonical numeric string of an integer below \<open>2^32 - 1\<close>\<close>
  "is_array_index s =
     (s \<noteq> [] \<and> list_all is_digit s \<and> (length s = 1 \<or> hd s \<noteq> CHR ''0'')
      \<and> index_value s < 4294967295)"

definition Object_entries :: "colorMap_obj \<Rightarrow> (string \<times> ColorEntry) list" where
  \<comment> \<open>own keys: array indices in ascending numeric order, then the others in creation order\<close>
  "Object_entries m =
     sort_key (\<lambda>e. index_value (fst e)) (filter (\<lambda>e. is_array_index (fst e)) (own m))
     @ filter (\<lambda>e. \<not> is_array_index (fst e)) (own m)"

subsection \<open>Set\<close>

text \<open>A \<open>Set\<close> keeps its elements in insertion order; adding a member again changes nothing.\<close>

definition Set_add :: "'a list \<Rightarrow> 'a \<Rightarrow> 'a list" where
  "Set_add s x = (if x \<in> set s then s else s @ [x])"

definition new_Set :: "'a list \<Rightarrow> 'a list" where
  "new_Set xs = foldl Set_add [] xs"

subsection \<open>Array.prototype.sort with a comparator of the elements\<close>

text \<open>
  With a consistent comparator the result of \<open>sort\<close> is fixed by the language: the
  stable ordering. \<open>cmp x y > 0\<close> puts \<open>x\<close> after \<open>y\<close>.
\<close>

fun insort_cmp :: "('a \<Rightarrow> 'a \<Rightarrow> jsnum) \<Rightarrow> 'a \<Rightarrow> 'a list \<Rightarrow> 'a list" where
  "insort_cmp cmp x [] = [x]"
| "insort_cmp cmp x (y # ys) =
     (if js_positive (cmp x y) then y # insort_cmp cmp x ys else x # y # ys)"

definition Array_sort :: "('a \<Rightarrow> 'a \<Rightarrow> jsnum) \<Rightarrow> 'a list \<Rightarrow> 'a list" where
  "Array_sort cmp xs = foldr (insort_cmp cmp) xs []"

section \<open>The aggregator: reportData and radarData of AnalysisDashboard (App.tsx)\<close>

definition total :: "AnalysisResult list \<Rightarrow> nat" where
  "total results = length results"

definition colorMap_step :: "colorMap_obj \<Rightarrow> real ColorData \<Rightarrow> colorMap_obj" where
  \<comment> \<open>\<open>colorMap[c.name] = { val: (colorMap[c.name]?.val || 0) + c.value, hex: c.hex }\<close>\<close>
  "colorMap_step m c =
     obj_set m (name c)
       \<lparr>val = (case obj_get m (name c) of
                 None \<Rightarrow> 0
               | Some d \<Rightarrow> (if val d = 0 then 0 else val d)) + cvalue c,
        ehex = hex c\<rparr>"

definition colorMap :: "AnalysisResult list \<Rightarrow> colorMap_obj" where
  "colorMap results =
     foldl (\<lambda>m r. foldl colorMap_step m (colorDistribution r)) empty_obj results"

definition by_value_desc :: "jsnum ColorData \<Rightarrow> jsnum ColorData \<Rightarrow> jsnum" where
  \<comment> \<open>\<open>(a, b) => b.value - a.value\<close>\<close>
  "by_value_desc a b = js_sub (cvalue b) (cvalue a)"

definition dominantColors_of :: "AnalysisResult list \<Rightarrow> jsnum ColorData list" where
  "dominantColors_of results =
     take 5 (Array_sort by_value_desc
       (map (\<lambda>(nm, d). \<lparr>name = nm, cvalue = js_div (val d) (total results), hex = ehex d\<rparr>)
          (Object_entries (colorMap results))))"

definition reportData :: "AnalysisResult list \<Rightarrow> CollectionSummary option \<Rightarrow> GlobalReportData" where
  "reportData results smry =
     \<lparr>avgSharpness = js_div (foldl (\<lambda>acc curr. acc + sharpness curr) 0 results) (total results),
      avgComplexity = js_div (foldl (\<lambda>acc curr. acc + complexity curr) 0 results) (total results),
      avgUniqueness = js_div (foldl (\<lambda>acc curr. acc + uniquenessScore curr) 0 results) (total results),
      topStyles = take 4 (new_Set (concat (map styleFeatures results))),
      dominantColors = dominantColors_of results,
      recommendations = [KeepContrastLines, UnifySaturation, AddDistinctiveDecoration],
      summary = smry\<rparr>"

definition radarData :: "AnalysisResult list \<Rightarrow> GlobalReportData \<Rightarrow> MetricData list" where
  "radarData results rd =
     [\<lparr>subject = ''Sharpness'', A = avgSharpness rd, fullMark = 100\<rparr>,
      \<lparr>subject = ''Complexity'', A = avgComplexity rd, fullMark = 100\<rparr>,
      \<lparr>subject = ''Uniqueness'', A = avgUniqueness rd, fullMark = 100\<rparr>,
      \<lparr>subject = ''Saturation'',
       A = js_div (foldl (\<lambda>a b. a + saturation b) 0 results) (length results),
       fullMark = 100\<rparr>]"

section \<open>The sampler of handleUpload (App.tsx)\<close>

text \<open>
  \<open>files.length > 6 ? files.sort(() => 0.5 - Math.random()).slice(0, 6) : files\<close>.
  The comparator ignores its arguments and answers at random, so what \<open>sort\<close> leaves
  in the array is up to the engine and the random draws of the run; \<open>random_sort\<close>
  stands for that outcome.
\<close>

definition samples :: "('f list \<Rightarrow> 'f list) \<Rightarrow> 'f list \<Rightarrow> 'f list" where
  "samples random_sort files =
     (if length files > 6 then take 6 (random_sort files) else files)"

section \<open>The remote service client (geminiService)\<close>

text \<open>
  What the client takes from outside the code: the remote service, the JSON parser read at
  the TypeScript type of its result, the random source of identifiers, the file reader, and
  the two fixed instruction texts. Calls are numbered within a run: the analysis of sample
  \<open>i\<close> is call \<open>i\<close>. A thrown exception is a value of type \<open>thrown\<close>.
\<close>

datatype thrown = Thrown string

datatype File = File (fileName: string) (fileId: nat)

datatype part = InlineData (mimeType: string) (payload: "string option") | TextPart string

datatype contents = Parts "part list" | Prompt string

record request =
  model :: string
  request_contents :: contents
  responseMimeType :: string
  required :: "string list"

record env =
  readAsDataURL :: "nat \<Rightarrow> File \<Rightarrow> string option"
  generateContent :: "nat \<Rightarrow> request \<Rightarrow> thrown + string"
  parse_result :: "string \<Rightarrow> thrown + AnalysisResult"
  parse_summary :: "string \<Rightarrow> thrown + CollectionSummary"
  random_id :: "nat \<Rightarrow> string"
  analysis_prompt :: string
  synthesis_prompt :: "string \<Rightarrow> string \<Rightarrow> string"

text \<open>\<open>s.split(c)\<close> for a one-character separator, and \<open>xs[i]\<close> (undefined out of range).\<close>

fun split_on :: "char \<Rightarrow> string \<Rightarrow> string list" where
  "split_on c [] = [[]]"
| "split_on c (x # xs) =
     (if x = c then [] # split_on c xs
      else (case split_on c xs of [] \<Rightarrow> [[x]] | w # ws \<Rightarrow> (x # w) # ws))"

definition at_index :: "'a list \<Rightarrow> nat \<Rightarrow> 'a option" where
  "at_index xs i = (if i < length xs then Some (xs ! i) else None)"

fun join :: "string \<Rightarrow> string list \<Rightarrow> string" where
  "join sep [] = []"
| "join sep [x] = x"
| "join sep (x # y # ys) = x @ sep @ join sep (y # ys)"

definition analysis_request :: "env \<Rightarrow> string \<Rightarrow> request" where
  "analysis_request w imageBase64 =
     \<lparr>model = ''gemini-3-flash-preview'',
      request_contents =
        Parts [InlineData ''image/jpeg'' (at_index (split_on CHR '','' imageBase64) 1),
               TextPart (analysis_prompt w)],
      responseMimeType = ''application/json'',
      required = [''colorDistribution'', ''sharpness'', ''complexity'', ''styleFeatures'',
                  ''clipSimilarity'', ''uniquenessScore'', ''description'']\<rparr>"

definition analyzeAsset :: "env \<Rightarrow> nat \<Rightarrow> string \<Rightarrow> thrown + AnalysisResult" where
  "analyzeAsset w i imageBase64 =
     (case generateContent w i (analysis_request w imageBase64) of
        Inl err \<Rightarrow> Inl err
      | Inr response_text \<Rightarrow>
          (case parse_result w response_text of
             Inl err \<Rightarrow> Inl err
           | Inr rawData \<Rightarrow> Inr (rawData\<lparr>rid := random_id w i, thumbnail := imageBase64\<rparr>)))"

definition synthesis_request :: "env \<Rightarrow> AnalysisResult list \<Rightarrow> request" where
  "synthesis_request w results =
     (let allFeatures = join '', '' (concat (map styleFeatures results));
          allDescriptions = join ''. '' (map description results)
      in \<lparr>model = ''gemini-3-pro-preview'',
          request_contents = Prompt (synthesis_prompt w allFeatures allDescriptions),
          responseMimeType = ''application/json'',
          required = [''coreFeatures'', ''promptFormula'']\<rparr>)"

definition synthesizeCollectionSummary ::
  "env \<Rightarrow> nat \<Rightarrow> AnalysisResult list \<Rightarrow> thrown + CollectionSummary" where
  "synthesizeCollectionSummary w i results =
     (case generateContent w i (synthesis_request w results) of
        Inl err \<Rightarrow> Inl err
      | Inr response_text \<Rightarrow> parse_summary w response_text)"

section \<open>The App component (App.tsx)\<close>

text \<open>
  The state hooks of \<open>App\<close>; the status text is display only and left out. The fields
  carry the suffix \<open>_st\<close>.
\<close>

record App_state =
  results_st :: "AnalysisResult list"
  summary_st :: "CollectionSummary option"
  analyzing_st :: bool
  progress_st :: real

definition initial_state :: App_state where
  "initial_state = \<lparr>results_st = [], summary_st = None, analyzing_st = False, progress_st = 0\<rparr>"

text \<open>
  What a run does to the outside, in order: each invocation of \<open>analyzeAsset\<close> (with the
  index of the sample and the string it was given) and of \<open>synthesizeCollectionSummary\<close>
  (with its argument).
\<close>

datatype event = Analyze nat string | Synthesize "AnalysisResult list"

text \<open>
  The loop of \<open>handleUpload\<close> over \<open>samples[i]\<close>, \<open>i = 0, 1, ...\<close>. The promise of the
  file reader resolves in \<open>onload\<close> only: when the read fails it stays pending and the run
  never goes on, which is the result \<open>None\<close>. An exception of \<open>analyzeAsset\<close> is caught
  and logged; the loop goes on with the next sample.
\<close>

fun analyze_loop ::
  "env \<Rightarrow> File list \<Rightarrow> nat \<Rightarrow> AnalysisResult list \<times> event list
     \<Rightarrow> (AnalysisResult list \<times> event list) option" where
  "analyze_loop w [] i (resultsBuffer, trace) = Some (resultsBuffer, trace)"
| "analyze_loop w (file # rest) i (resultsBuffer, trace) =
     (case readAsDataURL w i file of
        None \<Rightarrow> None
      | Some base64 \<Rightarrow>
          (case analyzeAsset w i base64 of
             Inr result \<Rightarrow>
               analyze_loop w rest (Suc i) (resultsBuffer @ [result], trace @ [Analyze i base64])
           | Inl err \<Rightarrow>
               analyze_loop w rest (Suc i) (resultsBuffer, trace @ [Analyze i base64])))"

definition handleUpload ::
  "env \<Rightarrow> (File list \<Rightarrow> File list) \<Rightarrow> File list \<Rightarrow> App_state \<Rightarrow> (App_state \<times> event list) option" where
  "handleUpload w random_sort files st =
     (case analyze_loop w (samples random_sort files) 0 ([], []) of
        None \<Rightarrow> None
      | Some (resultsBuffer, trace) \<Rightarrow>
          (let n = length (samples random_sort files);
               (st1, trace1) =
                 (if length resultsBuffer > 0 then
                    ((case synthesizeCollectionSummary w n resultsBuffer of
                        Inr aggregatedSummary \<Rightarrow> st\<lparr>summary_st := Some aggregatedSummary\<rparr>
                      | Inl err \<Rightarrow> st),
                     trace @ [Synthesize resultsBuffer])
                  else (st, trace))
           in Some (st1\<lparr>progress_st := 100, results_st := resultsBuffer, analyzing_st := False\<rparr>,
                    trace1)))"

definition reset :: "App_state \<Rightarrow> App_state" where
  "reset st = st\<lparr>results_st := [], summary_st := None, analyzing_st := False, progress_st := 0\<rparr>"

text \<open>
  What \<open>App\<close> renders. The dashboard, which computes \<open>reportData\<close> and \<open>radarData\<close>
  from its props, is rendered under \<open>!analyzing && results.length > 0\<close> only.
\<close>

datatype view =
  FileUploader
| LoadingState real
| AnalysisDashboard GlobalReportData "MetricData list"

definition render_AnalysisDashboard :: "AnalysisResult list \<Rightarrow> CollectionSummary option \<Rightarrow> view" where
  "render_AnalysisDashboard results smry =
     AnalysisDashboard (reportData results smry) (radarData results (reportData results smry))"

definition App_render :: "App_state \<Rightarrow> view list" where
  "App_render st =
     (if \<not> analyzing_st st \<and> length (results_st st) = 0 then [FileUploader] else [])
     @ (if analyzing_st st then [LoadingState (progress_st st)] else [])
     @ (if \<not> analyzing_st st \<and> length (results_st st) > 0
        then [render_AnalysisDashboard (results_st st) (summary_st st)] else [])"

text \<open>
  The states the application can be in: an upload starts from the uploader, a reset from the
  dashboard, and these are on screen as \<open>App_render\<close> says. A run whose file read never
  completes leaves the application in the loading state, at the progress of the sample it
  waits for.
\<close>

inductive reachable :: "App_state \<Rightarrow> bool" where
  start: "reachable initial_state"
| upload_done:
    "reachable st \<Longrightarrow> FileUploader \<in> set (App_render st)
     \<Longrightarrow> handleUpload w random_sort files st = Some (st', trace) \<Longrightarrow> reachable st'"
| upload_pending:
    "reachable st \<Longrightarrow> FileUploader \<in> set (App_render st)
     \<Longrightarrow> handleUpload w random_sort files st = None
     \<Longrightarrow> reachable (st\<lparr>analyzing_st := True, progress_st := p\<rparr>)"
| reset_clicked:
    "reachable st \<Longrightarrow> render_AnalysisDashboard (results_st st) (summary_st st) \<in> set (App_render st)
     \<Longrightarrow> reachable (reset st)"

section \<open>Specification-level notions\<close>

text \<open>Deduplication that keeps the first occurrence of every element, in order.\<close>

fun dedup_first :: "'a list \<Rightarrow> 'a list" where
  "dedup_first [] = []"
| "dedup_first (x # xs) = x # dedup_first (filter (\<lambda>y. y \<noteq> x) xs)"


text \<open>A result with the given identity, colours, scores and style tags, for concrete runs.\<close>

definition sample_result ::
  "string \<Rightarrow> real ColorData list \<Rightarrow> real \<Rightarrow> real \<Rightarrow> real \<Rightarrow> real \<Rightarrow> string list \<Rightarrow> AnalysisResult" where
  "sample_result i cs sh co sa un sf =
     \<lparr>rid = i, thumbnail = ''data:image/png;base64,AAAA'', colorDistribution = cs,
      sharpness = sh, complexity = co, saturation = sa, styleFeatures = sf,
      clipSimilarity = [], uniquenessScore = un, description = []\<rparr>"

text \<open>
  The second comma-separated field of a string: what lies between its first comma and the
  next one (or the end); there is none when the string has no comma. And everything after
  the first comma.
\<close>

definition second_field :: "string \<Rightarrow> string option" where
  "second_field s =
     (if CHR '','' \<in> set s
      then Some (takeWhile (\<lambda>c. c \<noteq> CHR '','') (tl (dropWhile (\<lambda>c. c \<noteq> CHR '','') s)))
      else None)"

definition after_first_comma :: "string \<Rightarrow> string" where
  "after_first_comma s = tl (dropWhile (\<lambda>c. c \<noteq> CHR '','') s)"

text \<open>
  The results of the samples that were read and analysed without an exception, in the order
  of the samples; the indices of the samples a run handed to \<open>analyzeAsset\<close>, in the order
  of the calls; the arguments of the calls of the synthesizer; and whether the reader
  delivers every sample.
\<close>

definition survivor :: "env \<Rightarrow> nat \<times> File \<Rightarrow> AnalysisResult option" where
  "survivor w p =
     (case readAsDataURL w (fst p) (snd p) of
        None \<Rightarrow> None
      | Some base64 \<Rightarrow> (case analyzeAsset w (fst p) base64 of Inr r \<Rightarrow> Some r | Inl err \<Rightarrow> None))"

definition survivors :: "env \<Rightarrow> nat \<Rightarrow> File list \<Rightarrow> AnalysisResult list" where
  "survivors w i fs = List.map_filter (survivor w) (zip [i ..< i + length fs] fs)"

fun analyzed_indices :: "event list \<Rightarrow> nat list" where
  "analyzed_indices [] = []"
| "analyzed_indices (Analyze i b # es) = i # analyzed_indices es"
| "analyzed_indices (Synthesize rs # es) = analyzed_indices es"

fun synthesized :: "event list \<Rightarrow> AnalysisResult list list" where
  "synthesized [] = []"
| "synthesized (Analyze i b # es) = synthesized es"
| "synthesized (Synthesize rs # es) = rs # synthesized es"

definition all_loaded :: "env \<Rightarrow> nat \<Rightarrow> File list \<Rightarrow> bool" where
  "all_loaded w i fs = list_all (\<lambda>p. readAsDataURL w (fst p) (snd p) \<noteq> None) (zip [i ..< i + length fs] fs)"

text \<open>
  A concrete environment and batch: every file but \<open>broken.png\<close> is read, the second call
  of the remote service fails, and every response parses.
\<close>

definition demo_env :: env where
  "demo_env =
     \<lparr>readAsDataURL = (\<lambda>i f. if fileName f = ''broken.png'' then None
                              else Some (''data:image/png;base64,'' @ fileName f)),
      generateContent = (\<lambda>i req. if i = 1 then Inl (Thrown ''503'') else Inr ''{}''),
      parse_result = (\<lambda>t. Inr (sample_result [] [] 50 50 50 50 [''Minimalism''])),
      parse_summary = (\<lambda>t. Inr \<lparr>coreFeatures = [''k''], promptFormula = ''p''\<rparr>),
      random_id = (\<lambda>i. ''id'' @ replicate i CHR ''x''),
      analysis_prompt = ''Analyze this visual asset'',
      synthesis_prompt = (\<lambda>fs ds. fs @ ds)\<rparr>"

definition demo_files :: "File list" where
  "demo_files = [File ''a.png'' 0, File ''b.png'' 1, File ''c.png'' 2]"






section \<open>Binary64 arithmetic of the averages\<close>

text \<open>
  A JavaScript number is a binary64 value. \<open>fl64\<close> rounds a real to the nearest binary64
  number, ties to the even significand: the unit in the last place of \<open>a\<close> is
  \<open>2 ^ (e - 52)\<close> for the exponent \<open>e\<close> of \<open>a\<close>, which is at least \<open>-1022\<close>
  (subnormal numbers share the unit \<open>2 ^ -1074\<close>), and a rounded magnitude of
  \<open>2 ^ 1024\<close> or more is an infinity. The sign of zero is not kept.
\<close>

definition pow2 :: "int \<Rightarrow> real" where
  "pow2 e = (if 0 \<le> e then 2 ^ nat e else 1 / 2 ^ nat (- e))"

function halvings :: "nat \<Rightarrow> real \<Rightarrow> nat" where
  "halvings n x = (if n = 0 \<or> x < 2 then 0 else Suc (halvings (n - 1) (x / 2)))"
  by pat_completeness auto
termination
  by (relation "measure fst") auto

function doublings :: "nat \<Rightarrow> real \<Rightarrow> nat" where
  "doublings n x = (if n = 0 \<or> 1 \<le> x then 0 else Suc (doublings (n - 1) (2 * x)))"
  by pat_completeness auto
termination
  by (relation "measure fst") auto

declare halvings.simps [simp del] doublings.simps [simp del]

definition binade :: "real \<Rightarrow> int" where
  "binade a = (if 1 \<le> a then int (halvings 1100 a) else - int (doublings 1022 a))"

definition round_even :: "real \<Rightarrow> int" where
  "round_even y =
     (if y - real_of_int \<lfloor>y\<rfloor> < 1 / 2 then \<lfloor>y\<rfloor>
      else if 1 / 2 < y - real_of_int \<lfloor>y\<rfloor> then \<lfloor>y\<rfloor> + 1
      else if even \<lfloor>y\<rfloor> then \<lfloor>y\<rfloor> else \<lfloor>y\<rfloor> + 1)"

definition fl64 :: "real \<Rightarrow> jsnum" where
  "fl64 x =
     (if x = 0 then Finite 0
      else let u = pow2 (binade \<bar>x\<bar> - 52);
               r = real_of_int (round_even (\<bar>x\<bar> / u)) * u
           in if pow2 1024 \<le> r then (if 0 < x then PosInfinity else NegInfinity)
              else Finite (if 0 < x then r else - r))"

fun js_add64 :: "jsnum \<Rightarrow> jsnum \<Rightarrow> jsnum" where
  "js_add64 (Finite a) (Finite b) = fl64 (a + b)"
| "js_add64 NaN _ = NaN"
| "js_add64 _ NaN = NaN"
| "js_add64 PosInfinity NegInfinity = NaN"
| "js_add64 NegInfinity PosInfinity = NaN"
| "js_add64 PosInfinity _ = PosInfinity"
| "js_add64 NegInfinity _ = NegInfinity"
| "js_add64 (Finite a) PosInfinity = PosInfinity"
| "js_add64 (Finite a) NegInfinity = NegInfinity"








definition unreadable_batch :: "File list" where
  "unreadable_batch = [File ''a.png'' 0, File ''broken.png'' 1, File ''c.png'' 2]"

section \<open>Arithmetic means (C4)\<close>






subsection \<open>Rounding errors\<close>




























text \<open>A sum of two finite numbers can be an infinity, and the average with it.\<close>

lemma averaging_can_overflow:
  "js_add64 (Finite (2 ^ 1023)) (Finite (2 ^ 1023)) = PosInfinity"
  by (simp add: fl64_def binade_def halvings.simps doublings.simps pow2_def round_even_def Let_def)

section \<open>Style tags (C5)\<close>

lemma filter_twice_neq:
  "filter (\<lambda>y. y \<noteq> x) (filter (\<lambda>y. y \<notin> set acc) xs) = filter (\<lambda>y. y \<notin> set (acc @ [x])) xs"
  by (induction xs) auto

lemma foldl_Set_add:
  "foldl Set_add acc xs = acc @ dedup_first (filter (\<lambda>y. y \<notin> set acc) xs)"
proof (induction xs arbitrary: acc)
  case Nil
  show ?case by simp
next
  case (Cons x xs)
  show ?case
  proof (cases "x \<in> set acc")
    case True
    then show ?thesis using Cons.IH [of acc] by (simp add: Set_add_def)
  next
    case False
    then show ?thesis
      using Cons.IH [of "acc @ [x]"] filter_twice_neq [of x acc xs]
      by (simp add: Set_add_def)
  qed
qed

lemma new_Set_dedup_first: "new_Set xs = dedup_first xs"
  using foldl_Set_add [of "[]" xs] by (simp add: new_Set_def)

text \<open>
  C5. For every results list, topStyles is the flattening of all styleFeatures lists in
  result order, deduplicated keeping first occurrences in order, cut to the first 4 entries.
\<close>

theorem C5_topStyles:
  "topStyles (reportData results smry)
     = take 4 (dedup_first (concat (map styleFeatures results)))"
  by (simp add: reportData_def new_Set_dedup_first)

theorem C5_topStyles_witness:
  "topStyles (reportData
      [sample_result ''a'' [] 1 1 1 1 [''X'', ''Y''],
       sample_result ''b'' [] 1 1 1 1 [''Y'', ''Z''],
       sample_result ''c'' [] 1 1 1 1 [''W'']] None) = [''X'', ''Y'', ''Z'', ''W'']"
  using C5_topStyles
    [of "[sample_result ''a'' [] 1 1 1 1 [''X'', ''Y''],
          sample_result ''b'' [] 1 1 1 1 [''Y'', ''Z''],
          sample_result ''c'' [] 1 1 1 1 [''W'']]" None]
  by (simp add: sample_result_def)

section \<open>The sampler on small batches (C7)\<close>

text \<open>
  C7. A batch of at most 6 files is its own sample: the same files in the same order,
  whatever the sort would have done; the empty batch gives the empty sample.
\<close>

theorem C7_small_batch_unchanged:
  "length files \<le> 6 \<Longrightarrow> samples random_sort files = files"
  by (simp add: samples_def)

theorem C7_small_batch_unchanged_witness:
  "length [''a.png'', ''b.png'', ''c.png''] \<le> 6
   \<and> samples rev [''a.png'', ''b.png'', ''c.png''] = [''a.png'', ''b.png'', ''c.png'']
   \<and> samples rev ([] :: string list) = []"
  using C7_small_batch_unchanged [of "[''a.png'', ''b.png'', ''c.png'']" rev]
    C7_small_batch_unchanged [of "[] :: string list" rev]
  by simp

section \<open>The sampler on large batches (C6)\<close>

lemma mset_insort_cmp: "mset (insort_cmp cmp x xs) = add_mset x (mset xs)"
  by (induction xs) simp_all

lemma mset_Array_sort: "mset (Array_sort cmp xs) = mset xs"
  by (induction xs) (simp_all add: Array_sort_def mset_insort_cmp)

lemma mset_take_subseteq: "mset (take n xs) \<subseteq># mset xs"
proof -
  have "mset xs = mset (take n xs) + mset (drop n xs)"
    by (metis append_take_drop_id mset_append)
  then show ?thesis by simp
qed

text \<open>
  C6. For a batch of more than 6 files the sample has exactly 6 elements, all of them files
  of the batch, none taken more often than the batch holds it: no duplicates when the files
  are distinct, as the entries of a file list are. What the engine's sort does with the
  random comparator is a parameter; it is taken to rearrange the array.
\<close>

theorem C6_large_batch_sample:
  assumes "length files > 6"
    and "mset (random_sort files) = mset files"
  shows "length (samples random_sort files) = 6
       \<and> set (samples random_sort files) \<subseteq> set files
       \<and> mset (samples random_sort files) \<subseteq># mset files
       \<and> (distinct files \<longrightarrow> distinct (samples random_sort files))"
proof -
  have len: "length (random_sort files) = length files"
    using assms(2) by (metis size_mset)
  have s: "samples random_sort files = take 6 (random_sort files)"
    using assms(1) by (simp add: samples_def)
  have sub: "mset (take 6 (random_sort files)) \<subseteq># mset files"
    using mset_take_subseteq [of 6 "random_sort files"] assms(2) by simp
  have "distinct files \<Longrightarrow> distinct (take 6 (random_sort files))"
    using assms(2) by (metis distinct_take mset_eq_imp_distinct_iff)
  moreover have "set (take 6 (random_sort files)) \<subseteq> set files"
    using sub by (metis set_mset_mono set_mset_mset)
  ultimately show ?thesis
    using s len assms(1) sub by simp
qed

theorem C6_large_batch_sample_witness:
  "6 < length [File ''a'' 0, File ''b'' 1, File ''c'' 2, File ''d'' 3, File ''e'' 4, File ''f'' 5, File ''g'' 6]
   \<and> samples (Array_sort (\<lambda>a b. Finite (0.5 - 0.25)))
        [File ''a'' 0, File ''b'' 1, File ''c'' 2, File ''d'' 3, File ''e'' 4, File ''f'' 5, File ''g'' 6]
      = [File ''g'' 6, File ''f'' 5, File ''e'' 4, File ''d'' 3, File ''c'' 2, File ''b'' 1]
   \<and> length (samples (Array_sort (\<lambda>a b. Finite (0.5 - 0.25)))
        [File ''a'' 0, File ''b'' 1, File ''c'' 2, File ''d'' 3, File ''e'' 4, File ''f'' 5, File ''g'' 6]) = 6
   \<and> distinct (samples (Array_sort (\<lambda>a b. Finite (0.5 - 0.25)))
        [File ''a'' 0, File ''b'' 1, File ''c'' 2, File ''d'' 3, File ''e'' 4, File ''f'' 5, File ''g'' 6])"
  using C6_large_batch_sample
    [of "[File ''a'' 0, File ''b'' 1, File ''c'' 2, File ''d'' 3, File ''e'' 4, File ''f'' 5, File ''g'' 6]"
        "Array_sort (\<lambda>a b. Finite (0.5 - 0.25))"]
    mset_Array_sort [of "\<lambda>a b. Finite (0.5 - 0.25)"
       "[File ''a'' 0, File ''b'' 1, File ''c'' 2, File ''d'' 3, File ''e'' 4, File ''f'' 5, File ''g'' 6]"]
  by (simp add: samples_def Array_sort_def)

section \<open>The saturation mean (C8)\<close>





section \<open>Divisions by the number of results (C9)\<close>



lemma reportData_empty_NaN:
  "avgSharpness (reportData [] smry) = NaN \<and> dominantColors (reportData [] smry) = []"
  by (simp add: reportData_def js_div_def total_def dominantColors_of_def colorMap_def
      empty_obj_def Object_entries_def Array_sort_def)






section \<open>The analysis request (C10)\<close>

lemma split_on_nonempty: "split_on c s \<noteq> []"
  by (induction s) (auto split: list.splits)

lemma hd_split_on: "hd (split_on c s) = takeWhile (\<lambda>x. x \<noteq> c) s"
  by (induction s) (auto split: list.splits simp: split_on_nonempty)

lemma at_index_1_Cons: "at_index (x # xs) (Suc 0) = (if xs = [] then None else Some (hd xs))"
  by (cases xs) (simp_all add: at_index_def)

lemma split_on_second:
  "at_index (split_on c s) (Suc 0) =
     (if c \<in> set s then Some (takeWhile (\<lambda>x. x \<noteq> c) (tl (dropWhile (\<lambda>x. x \<noteq> c) s))) else None)"
proof (induction s)
  case Nil
  show ?case by (simp add: at_index_def)
next
  case (Cons x xs)
  show ?case
  proof (cases "x = c")
    case True
    then show ?thesis
      by (simp add: at_index_1_Cons split_on_nonempty hd_split_on)
  next
    case False
    obtain w ws where sp: "split_on c xs = w # ws"
      using split_on_nonempty [of c xs] by (cases "split_on c xs") auto
    have "at_index (split_on c (x # xs)) (Suc 0) = at_index (split_on c xs) (Suc 0)"
      using False sp by (simp add: at_index_1_Cons)
    then show ?thesis using Cons.IH False by simp
  qed
qed

lemma takeWhile_all: "c \<notin> set s \<Longrightarrow> takeWhile (\<lambda>x. x \<noteq> c) s = s"
  by (induction s) auto

text \<open>
  C10, as the code has it. For every input string the request declares the media type
  \<open>image/jpeg\<close>, whatever the input says its type is; the payload is the second
  comma-separated field of the input, which is the whole substring after the first comma
  when that substring has no further comma, and is undefined when the input has no comma;
  on success the thumbnail of the result is the unmodified input.
\<close>

theorem C10_request_and_thumbnail:
  "request_contents (analysis_request w s)
     = Parts [InlineData ''image/jpeg'' (second_field s), TextPart (analysis_prompt w)]
   \<and> (CHR '','' \<in> set s \<and> CHR '','' \<notin> set (after_first_comma s)
        \<longrightarrow> second_field s = Some (after_first_comma s))
   \<and> (CHR '','' \<notin> set s \<longrightarrow> second_field s = None)
   \<and> (\<forall>r. analyzeAsset w i s = Inr r \<longrightarrow> thumbnail r = s)"
proof -
  have a: "request_contents (analysis_request w s)
     = Parts [InlineData ''image/jpeg'' (second_field s), TextPart (analysis_prompt w)]"
    by (simp add: analysis_request_def second_field_def split_on_second)
  have b: "CHR '','' \<in> set s \<and> CHR '','' \<notin> set (after_first_comma s)
        \<longrightarrow> second_field s = Some (after_first_comma s)"
    by (simp add: second_field_def after_first_comma_def takeWhile_all)
  have c: "CHR '','' \<notin> set s \<longrightarrow> second_field s = None"
    by (simp add: second_field_def)
  have d: "\<forall>r. analyzeAsset w i s = Inr r \<longrightarrow> thumbnail r = s"
    by (auto simp: analyzeAsset_def split: sum.splits)
  from a b c d show ?thesis by blast
qed

text \<open>
  For the input \<open>a,b,c\<close> the payload is \<open>b\<close>, not the substring \<open>b,c\<close> after the first
  comma; for \<open>abc\<close> there is no payload.
\<close>

theorem C10_payload_counterexample:
  "request_contents (analysis_request demo_env ''a,b,c'')
     = Parts [InlineData ''image/jpeg'' (Some ''b''), TextPart (analysis_prompt demo_env)]
   \<and> request_contents (analysis_request demo_env ''a,b,c'')
     \<noteq> Parts [InlineData ''image/jpeg'' (Some (after_first_comma ''a,b,c'')),
              TextPart (analysis_prompt demo_env)]
   \<and> after_first_comma ''a,b,c'' = ''b,c''
   \<and> request_contents (analysis_request demo_env ''abc'')
     = Parts [InlineData ''image/jpeg'' None, TextPart (analysis_prompt demo_env)]"
  by (simp add: analysis_request_def at_index_def after_first_comma_def)

theorem C10_request_and_thumbnail_witness:
  "request_contents (analysis_request demo_env ''data:image/png;base64,iVBORw0KGgo='')
     = Parts [InlineData ''image/jpeg'' (Some ''iVBORw0KGgo=''), TextPart (analysis_prompt demo_env)]
   \<and> analyzeAsset demo_env 0 ''data:image/png;base64,iVBORw0KGgo=''
     = Inr (sample_result ''id'' [] 50 50 50 50 [''Minimalism'']\<lparr>thumbnail := ''data:image/png;base64,iVBORw0KGgo=''\<rparr>)"
  using C10_request_and_thumbnail [of demo_env "''data:image/png;base64,iVBORw0KGgo=''" 0]
  by (simp add: second_field_def after_first_comma_def analyzeAsset_def demo_env_def sample_result_def)

section \<open>The upload run (C2, C3)\<close>

lemma analyzed_indices_append:
  "analyzed_indices (es @ fs) = analyzed_indices es @ analyzed_indices fs"
  by (induction es rule: analyzed_indices.induct) simp_all

lemma synthesized_append: "synthesized (es @ fs) = synthesized es @ synthesized fs"
  by (induction es rule: synthesized.induct) simp_all

lemma survivors_Cons:
  "survivors w i (f # fs) = (case survivor w (i, f) of None \<Rightarrow> [] | Some r \<Rightarrow> [r]) @ survivors w (Suc i) fs"
  unfolding survivors_def
  by (simp add: upt_conv_Cons List.map_filter_simps split: option.splits del: upt_Suc)

lemma all_loaded_Cons:
  "all_loaded w i (f # fs) = (readAsDataURL w i f \<noteq> None \<and> all_loaded w (Suc i) fs)"
  unfolding all_loaded_def by (simp add: upt_conv_Cons del: upt_Suc)

lemma analyze_loop_None:
  "\<not> all_loaded w i fs \<Longrightarrow> analyze_loop w fs i (buf, tr) = None"
proof (induction fs arbitrary: i buf tr)
  case Nil
  then show ?case by (simp add: all_loaded_def)
next
  case (Cons f fs)
  show ?case
  proof (cases "readAsDataURL w i f")
    case None
    then show ?thesis by simp
  next
    case (Some b)
    with Cons.prems have "\<not> all_loaded w (Suc i) fs" by (simp add: all_loaded_Cons)
    then show ?thesis using Some Cons.IH by (simp split: sum.splits)
  qed
qed

lemma analyze_loop_Some:
  "all_loaded w i fs \<Longrightarrow>
     \<exists>tr'. analyze_loop w fs i (buf, tr) = Some (buf @ survivors w i fs, tr @ tr')
          \<and> analyzed_indices tr' = [i ..< i + length fs] \<and> synthesized tr' = []"
proof (induction fs arbitrary: i buf tr)
  case Nil
  then show ?case by (simp add: survivors_def List.map_filter_simps)
next
  case (Cons f fs)
  from Cons.prems obtain b where b: "readAsDataURL w i f = Some b"
    and rest: "all_loaded w (Suc i) fs"
    by (auto simp: all_loaded_Cons)
  show ?case
  proof (cases "analyzeAsset w i b")
    case (Inl err)
    from Cons.IH [OF rest, of buf "tr @ [Analyze i b]"] obtain tr' where
      t: "analyze_loop w fs (Suc i) (buf, tr @ [Analyze i b])
            = Some (buf @ survivors w (Suc i) fs, (tr @ [Analyze i b]) @ tr')"
      and ix: "analyzed_indices tr' = [Suc i ..< Suc i + length fs]" and sy: "synthesized tr' = []"
      by blast
    have "analyze_loop w (f # fs) i (buf, tr)
            = Some (buf @ survivors w i (f # fs), tr @ (Analyze i b # tr'))"
      using b Inl t by (simp add: survivors_Cons survivor_def)
    moreover have "analyzed_indices (Analyze i b # tr') = [i ..< i + length (f # fs)]"
      using ix by (simp add: upt_conv_Cons del: upt_Suc)
    moreover have "synthesized (Analyze i b # tr') = []" using sy by simp
    ultimately show ?thesis by blast
  next
    case (Inr r)
    from Cons.IH [OF rest, of "buf @ [r]" "tr @ [Analyze i b]"] obtain tr' where
      t: "analyze_loop w fs (Suc i) (buf @ [r], tr @ [Analyze i b])
            = Some ((buf @ [r]) @ survivors w (Suc i) fs, (tr @ [Analyze i b]) @ tr')"
      and ix: "analyzed_indices tr' = [Suc i ..< Suc i + length fs]" and sy: "synthesized tr' = []"
      by blast
    have "analyze_loop w (f # fs) i (buf, tr)
            = Some (buf @ survivors w i (f # fs), tr @ (Analyze i b # tr'))"
      using b Inr t by (simp add: survivors_Cons survivor_def)
    moreover have "analyzed_indices (Analyze i b # tr') = [i ..< i + length (f # fs)]"
      using ix by (simp add: upt_conv_Cons del: upt_Suc)
    moreover have "synthesized (Analyze i b # tr') = []" using sy by simp
    ultimately show ?thesis by blast
  qed
qed

lemma handleUpload_None:
  "handleUpload w random_sort files st = None \<longleftrightarrow> \<not> all_loaded w 0 (samples random_sort files)"
proof (cases "all_loaded w 0 (samples random_sort files)")
  case True
  from analyze_loop_Some [OF True, of "[]" "[]"] obtain tr' where
    "analyze_loop w (samples random_sort files) 0 ([], []) = Some (survivors w 0 (samples random_sort files), tr')"
    by auto
  then show ?thesis using True by (simp add: handleUpload_def Let_def split: prod.splits)
next
  case False
  then show ?thesis using analyze_loop_None [OF False, of "[]" "[]"] by (simp add: handleUpload_def)
qed

lemma handleUpload_Some:
  assumes "handleUpload w random_sort files st = Some (st', trace)"
  shows "results_st st' = survivors w 0 (samples random_sort files)"
    and "analyzed_indices trace = [0 ..< length (samples random_sort files)]"
    and "synthesized trace = (if results_st st' = [] then [] else [results_st st'])"
    and "analyzing_st st' = False"
    and "summary_st st' = summary_st st \<or> (results_st st' \<noteq> [] \<and> summary_st st' \<noteq> None)"
proof -
  have ld: "all_loaded w 0 (samples random_sort files)"
    using assms handleUpload_None [of w random_sort files st] by auto
  from analyze_loop_Some [OF ld, of "[]" "[]"] obtain tr' where
    loop: "analyze_loop w (samples random_sort files) 0 ([], []) = Some (survivors w 0 (samples random_sort files), tr')"
    and ix: "analyzed_indices tr' = [0 ..< length (samples random_sort files)]"
    and sy: "synthesized tr' = []"
    by auto
  show "results_st st' = survivors w 0 (samples random_sort files)"
    using assms loop by (auto simp: handleUpload_def Let_def split: if_splits sum.splits)
  show "analyzed_indices trace = [0 ..< length (samples random_sort files)]"
    using assms loop ix by (auto simp: handleUpload_def Let_def analyzed_indices_append split: if_splits sum.splits)
  show "synthesized trace = (if results_st st' = [] then [] else [results_st st'])"
    using assms loop sy by (auto simp: handleUpload_def Let_def synthesized_append split: if_splits sum.splits)
  show "analyzing_st st' = False"
    using assms loop by (auto simp: handleUpload_def Let_def split: if_splits sum.splits)
  show "summary_st st' = summary_st st \<or> (results_st st' \<noteq> [] \<and> summary_st st' \<noteq> None)"
    using assms loop by (auto simp: handleUpload_def Let_def split: if_splits sum.splits)
qed

lemma uploader_rendered:
  "FileUploader \<in> set (App_render st) \<Longrightarrow> results_st st = [] \<and> \<not> analyzing_st st"
  by (simp add: App_render_def render_AnalysisDashboard_def split: if_splits)

lemma reachable_summary_results:
  "reachable st \<Longrightarrow> summary_st st \<noteq> None \<Longrightarrow> results_st st \<noteq> []"
proof (induction rule: reachable.induct)
  case start
  then show ?case by (simp add: initial_state_def)
next
  case (upload_done st w random_sort files st' trace)
  from handleUpload_Some(5) [OF upload_done.hyps(3)]
  have "summary_st st' = summary_st st \<or> (results_st st' \<noteq> [] \<and> summary_st st' \<noteq> None)" .
  moreover have "summary_st st = None"
    using upload_done.IH uploader_rendered [OF upload_done.hyps(2)] by blast
  ultimately show ?case using upload_done.prems by auto
next
  case (upload_pending st w random_sort files p)
  then show ?case by simp
next
  case (reset_clicked st)
  then show ?case by (simp add: reset_def)
qed

lemma demo_loaded: "all_loaded demo_env 0 (samples rev demo_files)"
  by (simp add: all_loaded_def samples_def demo_files_def demo_env_def)

lemma demo_survivors:
  "map rid (survivors demo_env 0 (samples rev demo_files)) = [''id'', ''idxx'']"
  by (simp add: survivors_def survivor_def samples_def demo_files_def demo_env_def
      analyzeAsset_def List.map_filter_simps sample_result_def)

text \<open>
  What a run does: it completes exactly when the reader delivers every sample; then the
  results buffer holds the results of the samples whose analysis threw nothing, in the order
  of the samples, and every sample was handed to \<open>analyzeAsset\<close> exactly once, in order.
\<close>

lemma upload_run_characterised:
  "(handleUpload w random_sort files st = None
      \<longleftrightarrow> \<not> all_loaded w 0 (samples random_sort files))
   \<and> (\<forall>st' trace. handleUpload w random_sort files st = Some (st', trace) \<longrightarrow>
         results_st st' = survivors w 0 (samples random_sort files)
       \<and> analyzed_indices trace = [0 ..< length (samples random_sort files)])"
  using handleUpload_None [of w random_sort files st]
    handleUpload_Some(1,2) [of w random_sort files st]
  by blast

text \<open>
  C2 fails on the code where the failure is in the read of a file. The promise of the reader
  is resolved in \<open>onload\<close> and has no other outcome, and it is awaited outside the
  \<open>try\<close>: for a batch of three files whose second file cannot be read, the run never
  completes, although the first and the third sample alone are read and analysed: no
  results buffer with the two survivors is ever published.
\<close>

theorem C2_failed_read_stalls_run:
  "handleUpload demo_env rev unreadable_batch initial_state = None
   \<and> samples rev unreadable_batch = unreadable_batch
   \<and> readAsDataURL demo_env 1 (unreadable_batch ! 1) = None
   \<and> analyze_loop demo_env [File ''a.png'' 0] 0 ([], []) \<noteq> None
   \<and> analyze_loop demo_env [File ''c.png'' 2] 2 ([], []) \<noteq> None"
  by (simp add: handleUpload_def samples_def unreadable_batch_def demo_env_def analyzeAsset_def
      sample_result_def)

text \<open>
  C3. In a run started from the uploader of a reachable state, the synthesizer is never
  called with an empty results list (it is not called at all when the buffer is empty), and
  the final state has a summary only if it has a result.
\<close>

theorem C3_synthesizer_only_on_results:
  assumes "reachable st"
    and "FileUploader \<in> set (App_render st)"
    and "handleUpload w random_sort files st = Some (st', trace)"
  shows "(\<forall>args \<in> set (synthesized trace). args \<noteq> [])
       \<and> (summary_st st' \<noteq> None \<longrightarrow> results_st st' \<noteq> [])
       \<and> (results_st st' = [] \<longrightarrow> synthesized trace = [])"
proof -
  have r: "reachable st'"
    using assms by (rule reachable.upload_done)
  have s: "synthesized trace = (if results_st st' = [] then [] else [results_st st'])"
    using assms(3) by (rule handleUpload_Some(3))
  show ?thesis
    using reachable_summary_results [OF r] s by auto
qed

theorem C3_synthesizer_only_on_results_witness:
  "reachable initial_state
   \<and> FileUploader \<in> set (App_render initial_state)
   \<and> (\<exists>st' trace. handleUpload demo_env rev demo_files initial_state = Some (st', trace)
        \<and> results_st st' \<noteq> [] \<and> list_all (\<lambda>args. args \<noteq> []) (synthesized trace))"
proof -
  have up: "FileUploader \<in> set (App_render initial_state)"
    by (simp add: App_render_def initial_state_def)
  obtain st' trace where
    run: "handleUpload demo_env rev demo_files initial_state = Some (st', trace)"
    using demo_loaded handleUpload_None [of demo_env rev demo_files initial_state]
    by (cases "handleUpload demo_env rev demo_files initial_state") auto
  have "map rid (results_st st') = [''id'', ''idxx'']"
    using handleUpload_Some(1) [OF run] demo_survivors by simp
  then have ne: "results_st st' \<noteq> []" by auto
  from C3_synthesizer_only_on_results [OF reachable.start up run]
  have "list_all (\<lambda>args. args \<noteq> []) (synthesized trace)"
    by (simp add: list_all_iff)
  with run ne up reachable.start show ?thesis by auto
qed

section \<open>The merged colour palette (C1)\<close>

subsection \<open>The colour map\<close>














subsection \<open>Enumeration and sort\<close>








subsection \<open>The palette\<close>






text \<open>The enumeration order of own keys: array indices first, in numeric order.\<close>

lemma entries_order_example:
  "map fst (Object_entries \<lparr>own = [(''B'', e), (''10'', e), (''9'', e), (''01'', e)], proto = None\<rparr>)
     = [''9'', ''10'', ''B'', ''01'']"
  by (simp add: Object_entries_def is_array_index_def is_digit_def index_value_def)

end
